theory Spec2Isabelle
  imports Complex_Main
begin

section \<open>JavaScript numbers\<close>

text \<open>
  A JavaScript Number is modelled as an exact real or one of the three special values
  of IEEE 754 arithmetic. The model keeps what the arithmetic of \<open>source.js\<close> can
  observe of the special values (a division by zero, the square root of a negative
  number, an operation on NaN) and leaves out two things: rounding (every finite result
  is the exact real one, also when it is stored in a \<open>Float32Array\<close>) and the sign of
  zero (\<open>-0\<close> and \<open>+0\<close> are the one value \<open>Num 0\<close>, and a zero divisor counts as
  \<open>+0\<close>).
\<close>

datatype jsnum = Num real | PosInf | NegInf | NaN

text \<open>The infinity with the sign of a real; the product of an infinity and zero is NaN.\<close>

definition signed_inf :: "real \<Rightarrow> jsnum" where
  "signed_inf r = (if r = 0 then NaN else if 0 < r then PosInf else NegInf)"

instantiation jsnum :: "{plus, minus, uminus, times, inverse, ord}"
begin

fun uminus_jsnum :: "jsnum \<Rightarrow> jsnum" where
  "- Num a = Num (- a)"
| "- PosInf = NegInf"
| "- NegInf = PosInf"
| "- NaN = NaN"

fun plus_jsnum :: "jsnum \<Rightarrow> jsnum \<Rightarrow> jsnum" where
  "Num a + Num b = Num (a + b)"
| "NaN + _ = NaN"
| "_ + NaN = NaN"
| "PosInf + NegInf = NaN"
| "NegInf + PosInf = NaN"
| "PosInf + _ = PosInf"
| "_ + PosInf = PosInf"
| "NegInf + _ = NegInf"
| "_ + NegInf = NegInf"

definition minus_jsnum :: "jsnum \<Rightarrow> jsnum \<Rightarrow> jsnum" where
  "minus_jsnum a b = a + (- b)"

fun times_jsnum :: "jsnum \<Rightarrow> jsnum \<Rightarrow> jsnum" where
  "Num a * Num b = Num (a * b)"
| "NaN * _ = NaN"
| "_ * NaN = NaN"
| "PosInf * Num b = signed_inf b"
| "NegInf * Num b = signed_inf (- b)"
| "Num a * PosInf = signed_inf a"
| "Num a * NegInf = signed_inf (- a)"
| "PosInf * PosInf = PosInf"
| "PosInf * NegInf = NegInf"
| "NegInf * PosInf = NegInf"
| "NegInf * NegInf = PosInf"

fun divide_jsnum :: "jsnum \<Rightarrow> jsnum \<Rightarrow> jsnum" where
  "divide_jsnum (Num a) (Num b) = (if b = 0 then signed_inf a else Num (a / b))"
| "divide_jsnum NaN _ = NaN"
| "divide_jsnum _ NaN = NaN"
| "divide_jsnum (Num a) PosInf = Num 0"
| "divide_jsnum (Num a) NegInf = Num 0"
| "divide_jsnum PosInf (Num b) = (if 0 \<le> b then PosInf else NegInf)"
| "divide_jsnum NegInf (Num b) = (if 0 \<le> b then NegInf else PosInf)"
| "divide_jsnum PosInf PosInf = NaN"
| "divide_jsnum PosInf NegInf = NaN"
| "divide_jsnum NegInf PosInf = NaN"
| "divide_jsnum NegInf NegInf = NaN"

definition inverse_jsnum :: "jsnum \<Rightarrow> jsnum" where
  "inverse_jsnum a = divide (Num 1) a"

text \<open>The comparison \<open><\<close> of JavaScript: false as soon as one side is NaN.\<close>

fun less_jsnum :: "jsnum \<Rightarrow> jsnum \<Rightarrow> bool" where
  "Num a < Num b = (a < b)"
| "NaN < _ = False"
| "_ < NaN = False"
| "_ < NegInf = False"
| "PosInf < _ = False"
| "NegInf < _ = True"
| "_ < PosInf = True"

fun less_eq_jsnum :: "jsnum \<Rightarrow> jsnum \<Rightarrow> bool" where
  "Num a \<le> Num b = (a \<le> b)"
| "NaN \<le> _ = False"
| "_ \<le> NaN = False"
| "NegInf \<le> _ = True"
| "_ \<le> PosInf = True"
| "_ \<le> NegInf = False"
| "PosInf \<le> _ = False"

instance ..

end

subsection \<open>The functions of \<open>Math\<close> that the source calls\<close>

fun Math_sqrt :: "jsnum \<Rightarrow> jsnum" where
  "Math_sqrt (Num a) = (if a < 0 then NaN else Num (sqrt a))"
| "Math_sqrt PosInf = PosInf"
| "Math_sqrt NegInf = NaN"
| "Math_sqrt NaN = NaN"

fun Math_sin :: "jsnum \<Rightarrow> jsnum" where
  "Math_sin (Num a) = Num (sin a)"
| "Math_sin _ = NaN"

fun Math_cos :: "jsnum \<Rightarrow> jsnum" where
  "Math_cos (Num a) = Num (cos a)"
| "Math_cos _ = NaN"

fun Math_abs :: "jsnum \<Rightarrow> jsnum" where
  "Math_abs (Num a) = Num \<bar>a\<bar>"
| "Math_abs PosInf = PosInf"
| "Math_abs NegInf = PosInf"
| "Math_abs NaN = NaN"

fun Math_min :: "jsnum \<Rightarrow> jsnum \<Rightarrow> jsnum" where
  "Math_min NaN _ = NaN"
| "Math_min _ NaN = NaN"
| "Math_min a b = (if a < b then a else b)"

fun Math_max :: "jsnum \<Rightarrow> jsnum \<Rightarrow> jsnum" where
  "Math_max NaN _ = NaN"
| "Math_max _ NaN = NaN"
| "Math_max a b = (if a < b then b else a)"

text \<open>The angle of the point \<open>(x, y)\<close>, in \<open>(-pi, pi]\<close>, for finite arguments.\<close>

definition atan2_real :: "real \<Rightarrow> real \<Rightarrow> real" where
  "atan2_real y x =
     (if 0 < x then arctan (y / x)
      else if x < 0 then (if 0 \<le> y then arctan (y / x) + pi else arctan (y / x) - pi)
      else if 0 < y then pi / 2
      else if y < 0 then - (pi / 2)
      else 0)"

fun Math_atan2 :: "jsnum \<Rightarrow> jsnum \<Rightarrow> jsnum" where
  "Math_atan2 (Num y) (Num x) = Num (atan2_real y x)"
| "Math_atan2 NaN _ = NaN"
| "Math_atan2 _ NaN = NaN"
| "Math_atan2 (Num y) PosInf = Num 0"
| "Math_atan2 (Num y) NegInf = (if 0 \<le> y then Num pi else Num (- pi))"
| "Math_atan2 PosInf (Num x) = Num (pi / 2)"
| "Math_atan2 NegInf (Num x) = Num (- (pi / 2))"
| "Math_atan2 PosInf PosInf = Num (pi / 4)"
| "Math_atan2 PosInf NegInf = Num (3 * pi / 4)"
| "Math_atan2 NegInf PosInf = Num (- (pi / 4))"
| "Math_atan2 NegInf NegInf = Num (- (3 * pi / 4))"

text \<open>
  \<open>Math.pow\<close>, case by case as ECMAScript lists them: a NaN exponent, a zero exponent
  (the result is 1 for every base, NaN too), a NaN base, the infinite bases, a zero
  base, the infinite exponents, a negative base with a fractional exponent, and the
  real power.
\<close>

definition is_integer :: "real \<Rightarrow> bool" where
  "is_integer b = (of_int \<lfloor>b\<rfloor> = b)"

definition is_odd_integer :: "real \<Rightarrow> bool" where
  "is_odd_integer b = (is_integer b \<and> odd \<lfloor>b\<rfloor>)"

fun Math_pow :: "jsnum \<Rightarrow> jsnum \<Rightarrow> jsnum" where
  "Math_pow _ NaN = NaN"
| "Math_pow NaN (Num b) = (if b = 0 then Num 1 else NaN)"
| "Math_pow NaN _ = NaN"
| "Math_pow PosInf (Num b) = (if b = 0 then Num 1 else if 0 < b then PosInf else Num 0)"
| "Math_pow PosInf PosInf = PosInf"
| "Math_pow PosInf NegInf = Num 0"
| "Math_pow NegInf (Num b) =
     (if b = 0 then Num 1
      else if 0 < b then (if is_odd_integer b then NegInf else PosInf)
      else Num 0)"
| "Math_pow NegInf PosInf = PosInf"
| "Math_pow NegInf NegInf = Num 0"
| "Math_pow (Num a) PosInf =
     (if 1 < \<bar>a\<bar> then PosInf else if \<bar>a\<bar> = 1 then NaN else Num 0)"
| "Math_pow (Num a) NegInf =
     (if 1 < \<bar>a\<bar> then Num 0 else if \<bar>a\<bar> = 1 then NaN else PosInf)"
| "Math_pow (Num a) (Num b) =
     (if b = 0 then Num 1
      else if a = 0 then (if 0 < b then Num 0 else PosInf)
      else if 0 < a then Num (a powr b)
      else if is_odd_integer b then Num (- (\<bar>a\<bar> powr b))
      else if is_integer b then Num (\<bar>a\<bar> powr b)
      else NaN)"

section \<open>The source model of \<open>source.js\<close>\<close>

type_synonym vec3 = "jsnum \<times> jsnum \<times> jsnum"

type_synonym quat = "jsnum \<times> jsnum \<times> jsnum \<times> jsnum"

text \<open>The calls a source makes on its attenuation and encoder collaborators, in order.\<close>

datatype collaborator_call = SetDistance jsnum | SetDirection jsnum jsnum

text \<open>
  The listener is an object of its own that the source reads at each call: the functions
  below take its current state as an argument.
\<close>

record Listener =
  listener_position :: vec3
  ambisonicOrder :: jsnum

text \<open>
  The fields of a \<open>Source\<close> object. \<open>directivity_gain\<close> is \<open>_directivity.gain.value\<close>,
  \<open>input_gain\<close> is \<open>input.gain.value\<close>, and \<open>calls\<close> records the calls of
  \<open>_attenuation.setDistance\<close> and \<open>_encoder.setDirection\<close>, the latest last.
\<close>

record Source =
  position :: vec3
  velocity :: vec3
  orientation_q :: quat
  forward :: vec3
  directivity_alpha :: jsnum
  directivity_order :: jsnum
  directivity_gain :: jsnum
  input_gain :: jsnum
  calls :: "collaborator_call list"

text \<open>
  Modelled from the spec: \<open>globals.js\<close> is not among the sources. The two conversion
  factors are the ones their names and the spec's formulas give (\<open>atan2(...) * (180/pi)\<close>,
  angles in degrees). The value of \<open>Globals.EpsilonFloat\<close> is written nowhere (the spec says
  "a small epsilon threshold"), so every function that reads it takes it as its first
  argument.
\<close>

definition PiByOneEighty :: jsnum where
  "PiByOneEighty = Num (pi / 180)"

definition OneEightyByPi :: jsnum where
  "OneEightyByPi = Num (180 / pi)"

text \<open>
  \<open>computeDirectivity\<close>, lines 244 to 255. The dot product, the mix and the power are the
  exact real ones: a rounding error in the vectors that the program has normalised, or in
  these operations, is not part of the value computed here.
\<close>

fun computeDirectivity :: "jsnum \<Rightarrow> vec3 \<Rightarrow> vec3 \<Rightarrow> jsnum \<Rightarrow> jsnum \<Rightarrow> jsnum" where
  "computeDirectivity EpsilonFloat (f0, f1, f2) (d0, d1, d2) alpha order =
     (if alpha < EpsilonFloat then Num 1
      else
        let cosTheta = f0 * d0 + f1 * d1 + f2 * d2;
            gain = (Num 1 - alpha) + alpha * cosTheta
        in Math_pow (Math_abs gain) order)"

text \<open>\<open>toQuaternion\<close>, lines 219 to 232.\<close>

definition toQuaternion :: "jsnum \<Rightarrow> jsnum \<Rightarrow> jsnum \<Rightarrow> quat" where
  "toQuaternion roll pitch yaw =
     (let t0 = Math_cos (yaw * Num (1/2));
          t1 = Math_sin (yaw * Num (1/2));
          t2 = Math_cos (roll * Num (1/2));
          t3 = Math_sin (roll * Num (1/2));
          t4 = Math_cos (pitch * Num (1/2));
          t5 = Math_sin (pitch * Num (1/2))
      in (t0 * t2 * t4 + t1 * t3 * t5,
          t0 * t3 * t4 - t1 * t2 * t5,
          t0 * t2 * t5 + t1 * t3 * t4,
          t1 * t2 * t4 - t0 * t3 * t5))"

text \<open>\<open>hamiltonProduct\<close>, lines 235 to 242.\<close>

fun hamiltonProduct :: "quat \<Rightarrow> quat \<Rightarrow> quat" where
  "hamiltonProduct (a0, a1, a2, a3) (b0, b1, b2, b3) =
     (a0 * b0 - a1 * b1 - a2 * b2 - a3 * b3,
      a0 * b1 + a1 * b0 + a2 * b3 - a3 * b2,
      a0 * b2 - a1 * b3 + a2 * b0 + a3 * b1,
      a0 * b3 + a1 * b2 - a2 * b1 + a3 * b0)"

text \<open>
  Lines 115 to 124 of \<open>setPosition\<close>: the difference of the source's and the listener's
  positions, its length, and the difference divided by the length, with no test of the
  length.
\<close>

fun directionAndDistance :: "vec3 \<Rightarrow> vec3 \<Rightarrow> vec3 \<times> jsnum" where
  "directionAndDistance (p0, p1, p2) (l0, l1, l2) =
     (let dx0 = p0 - l0; dx1 = p1 - l1; dx2 = p2 - l2;
          distance = Math_sqrt (dx0 * dx0 + dx1 * dx1 + dx2 * dx2)
      in ((dx0 / distance, dx1 / distance, dx2 / distance), distance))"

text \<open>Lines 131 to 133 of \<open>setPosition\<close>: azimuth and elevation, in degrees.\<close>

fun azimuthElevation :: "vec3 \<Rightarrow> jsnum \<times> jsnum" where
  "azimuthElevation (dx0, dx1, dx2) =
     (Math_atan2 (- dx0) dx2 * OneEightyByPi,
      Math_atan2 dx1 (Math_sqrt (dx0 * dx0 + dx2 * dx2)) * OneEightyByPi)"

text \<open>\<open>Source.prototype.setPosition\<close>, lines 107 to 138.\<close>

definition setPosition :: "jsnum \<Rightarrow> Listener \<Rightarrow> jsnum \<Rightarrow> jsnum \<Rightarrow> jsnum \<Rightarrow> Source \<Rightarrow> Source" where
  "setPosition EpsilonFloat L x y z s =
     (let s1 = s\<lparr>position := (x, y, z)\<rparr>;
          (dx, distance) = directionAndDistance (position s1) (listener_position L);
          s2 = s1\<lparr>directivity_gain :=
                  computeDirectivity EpsilonFloat (forward s1) dx
                    (directivity_alpha s1) (directivity_order s1)\<rparr>;
          (azimuth, elevation) = azimuthElevation dx
      in s2\<lparr>calls := calls s2 @ [SetDistance distance, SetDirection azimuth elevation]\<rparr>)"

text \<open>
  \<open>Source.prototype.setAngleFromListener\<close>, lines 146 to 173. An argument left out is
  \<open>None\<close>.
\<close>

definition setAngleFromListener ::
  "jsnum \<Rightarrow> Listener \<Rightarrow> jsnum \<Rightarrow> jsnum option \<Rightarrow> jsnum option \<Rightarrow> Source \<Rightarrow> Source" where
  "setAngleFromListener EpsilonFloat L azimuth elevation_arg distance_arg s =
     (let elevation = (case elevation_arg of None \<Rightarrow> Num 0 | Some e \<Rightarrow> e);
          distance = (case distance_arg of None \<Rightarrow> Num 1 | Some d \<Rightarrow> d);
          theta = azimuth * PiByOneEighty;
          phi = elevation * PiByOneEighty;
          x = - Math_sin theta * Math_cos phi;
          y = Math_sin theta;
          z = - Math_cos theta * Math_cos phi;
          s1 = s\<lparr>directivity_gain :=
                  computeDirectivity EpsilonFloat (forward s) (x, y, z)
                    (directivity_alpha s) (directivity_order s)\<rparr>;
          (l0, l1, l2) = listener_position L;
          s2 = s1\<lparr>position := (l0 + x, l1 + y, l2 + z)\<rparr>
      in s2\<lparr>calls := calls s2 @ [SetDistance distance, SetDirection (- azimuth) elevation]\<rparr>)"

text \<open>\<open>Source.prototype.setOrientation\<close>, lines 181 to 190.\<close>

definition setOrientation :: "jsnum \<Rightarrow> jsnum \<Rightarrow> jsnum \<Rightarrow> Source \<Rightarrow> Source" where
  "setOrientation roll pitch yaw s =
     (let q = toQuaternion roll pitch yaw;
          (q0, q1, q2, q3) = q;
          (w0, w1, w2, w3) =
            hamiltonProduct (hamiltonProduct q (Num 0, Num 0, Num 0, Num 1))
              (q0, - q1, - q2, - q3)
      in s\<lparr>orientation_q := q, forward := (w1, w2, w3)\<rparr>)"

text \<open>\<open>Source.prototype.setVelocity\<close>, lines 198 to 200: the body is a comment.\<close>

definition setVelocity :: "jsnum \<Rightarrow> jsnum \<Rightarrow> jsnum \<Rightarrow> Source \<Rightarrow> Source" where
  "setVelocity x y z s = s"

text \<open>\<open>Source.prototype.setDirectivity\<close>, lines 210 to 216.\<close>

definition setDirectivity :: "jsnum \<Rightarrow> jsnum \<Rightarrow> Source \<Rightarrow> Source" where
  "setDirectivity alpha order s =
     s\<lparr>directivity_alpha := Math_min (Num 1) (Math_max (Num 0) alpha),
       directivity_order := Math_min (Num 1) order\<rparr>"

text \<open>
  The constructor, lines 41 to 99, for options that are all given: the fields as lines 66
  to 72 create them (a new \<open>Float32Array\<close> holds zeros, the gain of a new gain node is 1),
  then the three setters and the input gain.
\<close>

definition new_Source :: "jsnum \<Rightarrow> Listener \<Rightarrow> jsnum \<Rightarrow> vec3 \<Rightarrow> vec3 \<Rightarrow> vec3 \<Rightarrow> Source" where
  "new_Source EpsilonFloat L gain pos vel ori =
     (let s0 = \<lparr>position = (Num 0, Num 0, Num 0),
                velocity = (Num 0, Num 0, Num 0),
                orientation_q = (Num 0, Num 0, Num 0, Num 0),
                forward = (Num 0, Num 0, Num 0),
                directivity_alpha = Num 0,
                directivity_order = ambisonicOrder L,
                directivity_gain = Num 1,
                input_gain = Num 1,
                calls = []\<rparr>;
          s1 = (case pos of (x, y, z) \<Rightarrow> setPosition EpsilonFloat L x y z s0);
          s2 = (case vel of (x, y, z) \<Rightarrow> setVelocity x y z s1);
          s3 = (case ori of (x, y, z) \<Rightarrow> setOrientation x y z s2)
      in s3\<lparr>input_gain := gain\<rparr>)"

section \<open>Vocabulary of the properties\<close>

text \<open>
  Sample values for the closed statements below: a listener at the origin, a value of
  \<open>Globals.EpsilonFloat\<close> (the general statements hold for every value of it), and the source
  that the constructor builds at the origin with a zero orientation.
\<close>

definition origin_listener :: Listener where
  "origin_listener = \<lparr>listener_position = (Num 0, Num 0, Num 0), ambisonicOrder = Num 1\<rparr>"

definition small_epsilon :: jsnum where
  "small_epsilon = Num (1 / 10 ^ 8)"

definition default_source :: Source where
  "default_source =
     new_Source small_epsilon origin_listener (Num 1)
       (Num 0, Num 0, Num 0) (Num 0, Num 0, Num 0) (Num 0, Num 0, Num 0)"

text \<open>Two numbers are near when both are finite and differ by at most the tolerance.\<close>

fun near :: "real \<Rightarrow> jsnum \<Rightarrow> jsnum \<Rightarrow> bool" where
  "near tol (Num a) (Num b) = (\<bar>a - b\<bar> \<le> tol)"
| "near tol _ _ = False"

fun near_vec3 :: "real \<Rightarrow> vec3 \<Rightarrow> vec3 \<Rightarrow> bool" where
  "near_vec3 tol (a0, a1, a2) (b0, b1, b2) =
     (near tol a0 b0 \<and> near tol a1 b1 \<and> near tol a2 b2)"

text \<open>A gain in \<open>[0, 1]\<close>: a finite number between 0 and 1.\<close>

fun in_unit_interval :: "jsnum \<Rightarrow> bool" where
  "in_unit_interval (Num r) = (0 \<le> r \<and> r \<le> 1)"
| "in_unit_interval _ = False"

text \<open>The norm of a quaternion, in the arithmetic of the program.\<close>

fun quat_norm :: "quat \<Rightarrow> jsnum" where
  "quat_norm (q0, q1, q2, q3) = Math_sqrt (q0 * q0 + q1 * q1 + q2 * q2 + q3 * q3)"

section \<open>Arithmetic facts\<close>

lemma NaN_times [simp]: "NaN * a = NaN" "a * NaN = NaN"
  by (cases a; simp)+

lemma sqrt_25: "sqrt 25 = 5"
proof -
  have "sqrt 25 = sqrt (5\<^sup>2)" by simp
  then show ?thesis by (simp del: power2_eq_square)
qed

text \<open>The sum of the squares of the four components that \<open>toQuaternion\<close> returns.\<close>

lemma euler_product:
  fixes t0 t1 t2 t3 t4 t5 :: real
  shows "(t0 * t2 * t4 + t1 * t3 * t5) * (t0 * t2 * t4 + t1 * t3 * t5)
       + (t0 * t3 * t4 - t1 * t2 * t5) * (t0 * t3 * t4 - t1 * t2 * t5)
       + (t0 * t2 * t5 + t1 * t3 * t4) * (t0 * t2 * t5 + t1 * t3 * t4)
       + (t1 * t2 * t4 - t0 * t3 * t5) * (t1 * t2 * t4 - t0 * t3 * t5)
       = (t0\<^sup>2 + t1\<^sup>2) * (t2\<^sup>2 + t3\<^sup>2) * (t4\<^sup>2 + t5\<^sup>2)"
  by (simp add: power2_eq_square algebra_simps)

lemma half_angle_unit:
  fixes a b c :: real
  shows "(cos a * cos b * cos c + sin a * sin b * sin c) * (cos a * cos b * cos c + sin a * sin b * sin c)
       + (cos a * sin b * cos c - sin a * cos b * sin c) * (cos a * sin b * cos c - sin a * cos b * sin c)
       + (cos a * cos b * sin c + sin a * sin b * cos c) * (cos a * cos b * sin c + sin a * sin b * cos c)
       + (sin a * cos b * cos c - cos a * sin b * sin c) * (sin a * cos b * cos c - cos a * sin b * sin c)
       = 1"
  by (simp only: euler_product [of "cos a" "cos b" "cos c" "sin a" "sin b" "sin c"]
        cos_squared_eq [symmetric]) simp

text \<open>The dot product of two unit vectors lies in \<open>[-1, 1]\<close>.\<close>

lemma dot_bounds:
  fixes f0 f1 f2 d0 d1 d2 :: real
  assumes "f0 * f0 + f1 * f1 + f2 * f2 = 1" and "d0 * d0 + d1 * d1 + d2 * d2 = 1"
  shows "\<bar>f0 * d0 + f1 * d1 + f2 * d2\<bar> \<le> 1"
proof -
  have "0 \<le> (f0 - d0)\<^sup>2 + (f1 - d1)\<^sup>2 + (f2 - d2)\<^sup>2" by simp
  then have upper: "f0 * d0 + f1 * d1 + f2 * d2 \<le> 1"
    using assms by (simp add: power2_eq_square algebra_simps)
  have "0 \<le> (f0 + d0)\<^sup>2 + (f1 + d1)\<^sup>2 + (f2 + d2)\<^sup>2" by simp
  then have lower: "- 1 \<le> f0 * d0 + f1 * d1 + f2 * d2"
    using assms by (simp add: power2_eq_square algebra_simps)
  from upper lower show ?thesis by simp
qed

lemma mix_bounds:
  fixes a c :: real
  assumes "0 \<le> a" and "a \<le> 1" and "\<bar>c\<bar> \<le> 1"
  shows "\<bar>(1 - a) + a * c\<bar> \<le> 1"
proof -
  have "a * c \<le> a * 1"
    using assms by (intro mult_left_mono) auto
  moreover have "a * (- 1) \<le> a * c"
    using assms by (intro mult_left_mono) auto
  ultimately show ?thesis
    using assms by (simp add: abs_le_iff)
qed

lemma pow_unit:
  assumes "0 \<le> g" and "g \<le> 1" and "1 \<le> n"
  shows "in_unit_interval (Math_pow (Num g) (Num n))"
  using assms by (simp add: powr_le1)

section \<open>The directivity gain in exact arithmetic\<close>

text \<open>
  On exact reals, for alpha in \<open>[0, 1]\<close>, a finite order of at least 1 and two vectors whose
  norm is exactly 1, the value of \<open>computeDirectivity\<close> is a finite number in \<open>[0, 1]\<close>. The
  bound is attained at 1, so it says nothing of the doubles of the program, where the
  norm of a normalised vector is 1 only up to a rounding error.
\<close>

lemma computeDirectivity_exact_bound:
  assumes "0 \<le> alpha" and "alpha \<le> 1" and "1 \<le> order"
    and "f0 * f0 + f1 * f1 + f2 * f2 = 1" and "d0 * d0 + d1 * d1 + d2 * d2 = 1"
  shows "in_unit_interval
           (computeDirectivity e (Num f0, Num f1, Num f2) (Num d0, Num d1, Num d2)
              (Num alpha) (Num order))"
proof -
  have "\<bar>f0 * d0 + f1 * d1 + f2 * d2\<bar> \<le> 1"
    using assms(4,5) by (rule dot_bounds)
  then have "\<bar>(1 - alpha) + alpha * (f0 * d0 + f1 * d1 + f2 * d2)\<bar> \<le> 1"
    using assms(1,2) by (intro mix_bounds)
  then show ?thesis
    using pow_unit [OF _ _ assms(3)]
    by (simp add: Let_def minus_jsnum_def del: Math_pow.simps)
qed

section \<open>The program at particular inputs\<close>

lemma default_source_eq:
  "default_source =
     \<lparr>position = (Num 0, Num 0, Num 0),
      velocity = (Num 0, Num 0, Num 0),
      orientation_q = (Num 1, Num 0, Num 0, Num 0),
      forward = (Num 0, Num 0, Num 1),
      directivity_alpha = Num 0,
      directivity_order = Num 1,
      directivity_gain = Num 1,
      input_gain = Num 1,
      calls = [SetDistance (Num 0), SetDirection NaN NaN]\<rparr>"
  by (simp add: default_source_def new_Source_def setPosition_def setVelocity_def
      setOrientation_def toQuaternion_def small_epsilon_def origin_listener_def
      minus_jsnum_def signed_inf_def Let_def)

lemma direction_at_listener:
  "directionAndDistance (Num a, Num b, Num c) (Num a, Num b, Num c) = ((NaN, NaN, NaN), Num 0)"
  by (simp add: minus_jsnum_def signed_inf_def)

lemma angles_of_NaN: "azimuthElevation (NaN, NaN, NaN) = (NaN, NaN)"
  by simp

lemma direction_005:
  "directionAndDistance (Num 0, Num 0, Num 5) (Num 0, Num 0, Num 0) = ((Num 0, Num 0, Num 1), Num 5)"
  by (simp add: minus_jsnum_def Let_def sqrt_25)

lemma angles_001: "azimuthElevation (Num 0, Num 0, Num 1) = (Num 0, Num 0)"
  by (simp add: OneEightyByPi_def atan2_real_def)

section \<open>The claims\<close>

text \<open>
  C1 (evaluation of the code): when \<open>setPosition\<close> is called with the listener's own
  position, the distance is the square root of 0 and each component of the difference is
  divided by it. The attenuation collaborator receives the distance 0, not a positive
  epsilon, and the encoder collaborator receives NaN for the azimuth and for the
  elevation. This holds for every finite listener position, every epsilon and every state
  of the source.
\<close>

theorem setPosition_at_listener_passes_NaN:
  "calls (setPosition e \<lparr>listener_position = (Num a, Num b, Num c), ambisonicOrder = n\<rparr>
            (Num a) (Num b) (Num c) s)
   = calls s @ [SetDistance (Num 0), SetDirection NaN NaN]"
  by (simp add: setPosition_def direction_at_listener angles_of_NaN
      del: directionAndDistance.simps azimuthElevation.simps)

text \<open>
  C2 (evaluation of the code): with the listener at the origin, \<open>setPosition(0, 0, 5)\<close>
  computes the distance 5 and the normalized direction \<open>(0, 0, 1)\<close>, the source's position
  minus the listener's, and passes the distance 5 to the attenuation collaborator and
  azimuth 0, elevation 0 to the encoder collaborator: not the direction \<open>(0, 0, -1)\<close> and
  not the azimuth 180. The other entry point gives the opposite azimuth for a source on
  the same side: \<open>setAngleFromListener(180, 0, 5)\<close> stores the position \<open>(0, 0, 1)\<close>, also
  straight along +Z from the listener, and passes azimuth -180 to the encoder.
\<close>

theorem setPosition_005:
  "directionAndDistance (Num 0, Num 0, Num 5) (Num 0, Num 0, Num 0)
     = ((Num 0, Num 0, Num 1), Num 5)
   \<and> calls (setPosition e \<lparr>listener_position = (Num 0, Num 0, Num 0), ambisonicOrder = n\<rparr>
              (Num 0) (Num 0) (Num 5) s)
     = calls s @ [SetDistance (Num 5), SetDirection (Num 0) (Num 0)]
   \<and> (let s' = setAngleFromListener e
                  \<lparr>listener_position = (Num 0, Num 0, Num 0), ambisonicOrder = n\<rparr>
                  (Num 180) (Some (Num 0)) (Some (Num 5)) s
       in position s' = (Num 0, Num 0, Num 1)
          \<and> calls s' = calls s @ [SetDistance (Num 5), SetDirection (Num (- 180)) (Num 0)])"
  by (simp add: setPosition_def direction_005 angles_001 setAngleFromListener_def
      PiByOneEighty_def Let_def
      del: directionAndDistance.simps azimuthElevation.simps)

text \<open>
  C3 (evaluation of the code): for a listener at the origin, \<open>setAngleFromListener(90, 0, 2)\<close>
  stores the position \<open>(-1, 1, 0)\<close>. Its y coordinate is the sine of the azimuth, where the
  elevation is 0, and the offset is not scaled by the distance 2 that the attenuation
  collaborator receives. The stored position is not within 1/2 of \<open>(-2, 0, 0)\<close>, so it is
  within no smaller tolerance either. The encoder collaborator receives azimuth -90 and
  elevation 0.
\<close>

theorem setAngleFromListener_90_0_2:
  "let s' = setAngleFromListener e
              \<lparr>listener_position = (Num 0, Num 0, Num 0), ambisonicOrder = n\<rparr>
              (Num 90) (Some (Num 0)) (Some (Num 2)) s
   in position s' = (Num (- 1), Num 1, Num 0)
      \<and> calls s' = calls s @ [SetDistance (Num 2), SetDirection (Num (- 90)) (Num 0)]
      \<and> \<not> near_vec3 (1 / 2) (position s') (Num (- 2), Num 0, Num 0)"
  by (simp add: setAngleFromListener_def PiByOneEighty_def Let_def)

text \<open>
  C4 (evaluation of the code): \<open>setDirectivity\<close> stores the smaller of 1 and the order. An
  order of 3 is stored as 1, and an order of 1/2 is stored unchanged, below 1.
\<close>

theorem setDirectivity_order_upper_clamp:
  "directivity_order (setDirectivity alpha (Num 3) s) = Num 1
   \<and> directivity_order (setDirectivity alpha (Num (1 / 2)) s) = Num (1 / 2)"
  by (simp add: setDirectivity_def)

text \<open>
  C5 (as amended): with alpha = 1 and order = 1, \<open>computeDirectivity\<close> returns 1 when the
  cosine of the angle between the two vectors is 1 and also when it is -1, for every value
  of the epsilon.
\<close>

theorem computeDirectivity_bidirectional:
  assumes "f0 * d0 + f1 * d1 + f2 * d2 = cosTheta" and "cosTheta = 1 \<or> cosTheta = - 1"
  shows "computeDirectivity e (Num f0, Num f1, Num f2) (Num d0, Num d1, Num d2) (Num 1) (Num 1)
         = Num 1"
  using assms by (auto simp add: minus_jsnum_def Let_def)

theorem computeDirectivity_bidirectional_witness:
  "(0::real) * 0 + 0 * 0 + 1 * (- 1) = - 1
   \<and> computeDirectivity small_epsilon (Num 0, Num 0, Num 1) (Num 0, Num 0, Num (- 1))
       (Num 1) (Num 1) = Num 1"
proof -
  have dot: "(0::real) * 0 + 0 * 0 + 1 * (- 1) = - 1" by simp
  have sign: "(- 1 :: real) = 1 \<or> (- 1 :: real) = - 1" by simp
  show ?thesis
    using dot computeDirectivity_bidirectional [OF dot sign, of small_epsilon] by simp
qed

text \<open>
  C5 as stated fails: for antiparallel vectors the result is not 0.
\<close>

theorem computeDirectivity_antiparallel_counterexample:
  "\<not> (computeDirectivity small_epsilon (Num 0, Num 0, Num 1) (Num 0, Num 0, Num 1)
         (Num 1) (Num 1) = Num 1
       \<and> computeDirectivity small_epsilon (Num 0, Num 0, Num 1) (Num 0, Num 0, Num (- 1))
         (Num 1) (Num 1) = Num 0)"
  by (simp add: small_epsilon_def minus_jsnum_def Let_def)

text \<open>
  C6 (evaluation of the code): \<open>setVelocity\<close> returns the source as it was, so the
  velocity field keeps its old value: after \<open>setVelocity(1, 2, 3)\<close> on the default source
  it is still \<open>(0, 0, 0)\<close>.
\<close>

theorem setVelocity_stores_nothing:
  "setVelocity x y z s = s
   \<and> velocity (setVelocity (Num 1) (Num 2) (Num 3) default_source) = (Num 0, Num 0, Num 0)"
  by (simp add: setVelocity_def default_source_eq)

text \<open>
  C8: after \<open>setOrientation(0, 0, 0)\<close> the stored forward vector is \<open>(0, 0, 1)\<close>, whatever
  the state of the source was.
\<close>

theorem setOrientation_zero_forward:
  "forward (setOrientation (Num 0) (Num 0) (Num 0) s) = (Num 0, Num 0, Num 1)"
  by (simp add: setOrientation_def toQuaternion_def minus_jsnum_def Let_def)

text \<open>
  C9: the position that \<open>setAngleFromListener\<close> stores does not depend on the distance
  argument, given or left out: for every azimuth, elevation, listener and source, two calls
  that differ in the distance only store the same position.
\<close>

theorem setAngleFromListener_position_ignores_distance:
  "position (setAngleFromListener e L azimuth elevation d1 s)
   = position (setAngleFromListener e L azimuth elevation d2 s)"
  by (simp add: setAngleFromListener_def Let_def split: prod.splits)

text \<open>
  C10: for all real roll, pitch and yaw, in exact arithmetic, the quaternion that
  \<open>toQuaternion\<close> returns has norm 1, and so has the quaternion that \<open>setOrientation\<close>
  stores.
\<close>

theorem toQuaternion_unit_norm:
  "quat_norm (toQuaternion (Num roll) (Num pitch) (Num yaw)) = Num 1
   \<and> quat_norm (orientation_q (setOrientation (Num roll) (Num pitch) (Num yaw) s)) = Num 1"
  using half_angle_unit [of "yaw * (1 / 2)" "roll * (1 / 2)" "pitch * (1 / 2)"]
  by (simp add: setOrientation_def toQuaternion_def minus_jsnum_def Let_def)

end
